theory Spec2Isabelle
  imports Main
begin

section \<open>Python strings\<close>

text \<open>
  A Python \<open>str\<close> is modelled as a \<^typ>\<open>string\<close>; a \<^typ>\<open>char\<close> stands for a code point
  below 256. The backslash cannot be written inside a string literal, so it has a name.
\<close>

abbreviation bslash :: char where
  "bslash \<equiv> CHR 0x5C"

text \<open>\<open>s.startswith(p)\<close>\<close>

definition startswith :: "string \<Rightarrow> string \<Rightarrow> bool" where
  "startswith s p = (take (length p) s = p)"

text \<open>\<open>s.split(c)\<close> for a separator of one character: never an empty list.\<close>

fun split_chr :: "char \<Rightarrow> string \<Rightarrow> string list" where
  "split_chr c [] = [[]]"
| "split_chr c (x # xs) =
     (if x = c then [] # split_chr c xs
      else (case split_chr c xs of
              [] \<Rightarrow> [[x]]
            | w # ws \<Rightarrow> (x # w) # ws))"

text \<open>
  \<open>c.isspace()\<close> on the code points below 256: tab, line feed, vertical tab, form feed,
  carriage return, the four separators 0x1C to 0x1F, space, NEL and the no-break space.
\<close>

definition isspace :: "char \<Rightarrow> bool" where
  "isspace c = ((of_char c :: nat) \<in> {9, 10, 11, 12, 13, 28, 29, 30, 31, 32, 133, 160})"

text \<open>\<open>s.strip()\<close>\<close>

definition strip :: "string \<Rightarrow> string" where
  "strip s = rev (dropWhile isspace (rev (dropWhile isspace s)))"

text \<open>\<open>s.replace(a, b)\<close> for single characters \<open>a\<close> and \<open>b\<close>\<close>

definition replace_chr :: "char \<Rightarrow> char \<Rightarrow> string \<Rightarrow> string" where
  "replace_chr a b s = map (\<lambda>c. if c = a then b else c) s"

text \<open>\<open>sep.join(xs)\<close> for a separator of one character\<close>

fun join_chr :: "char \<Rightarrow> string list \<Rightarrow> string" where
  "join_chr c [] = []"
| "join_chr c [x] = x"
| "join_chr c (x # y # ys) = x @ c # join_chr c (y # ys)"


section \<open>Exceptions, the library and the world\<close>

text \<open>
  The exceptions the code meets. \<open>ValueError\<close> stands for the class and its subclasses
  (a \<open>UnicodeDecodeError\<close> is one), \<open>OSError\<close> likewise, \<open>Exception\<close> for a plain
  \<open>Exception(msg)\<close>. All of them are caught by \<open>except Exception\<close>; only the first by
  \<open>except ValueError\<close>.
\<close>

datatype exn = ValueError string | OSError string | Exception string

text \<open>
  The functions of \<open>os.path\<close>, \<open>io\<close>, \<open>os\<close> and \<open>shutil\<close> that \<open>winutils.py\<close> calls are
  not part of the repository; the model takes them as a record over an arbitrary type
  \<open>'fs\<close> of filesystem states. A query returns its value or the exception it raises; a
  command returns the exception it raised, if any, and the filesystem it left behind
  (a failed \<open>copytree\<close> may have copied a part).
\<close>

record 'fs os =
  path_join :: "string \<Rightarrow> string \<Rightarrow> string"
  path_normpath :: "string \<Rightarrow> string"
  path_dirname :: "string \<Rightarrow> string"
  path_relpath :: "string \<Rightarrow> string \<Rightarrow> exn + string"
  path_exists :: "'fs \<Rightarrow> string \<Rightarrow> exn + bool"
  path_isdir :: "'fs \<Rightarrow> string \<Rightarrow> exn + bool"
  io_read :: "'fs \<Rightarrow> string \<Rightarrow> exn + string"
  os_unlink :: "string \<Rightarrow> 'fs \<Rightarrow> exn option \<times> 'fs"
  shutil_copytree :: "string \<Rightarrow> string \<Rightarrow> 'fs \<Rightarrow> exn option \<times> 'fs"
  shutil_copy2 :: "string \<Rightarrow> string \<Rightarrow> 'fs \<Rightarrow> exn option \<times> 'fs"

text \<open>
  Every call that touches the filesystem, and every line printed, is recorded in order:
  \<open>Read p\<close> opens \<open>p\<close> and reads its text, \<open>Probe p\<close> asks whether \<open>p\<close> exists or is a
  directory, \<open>Unlink p\<close> removes \<open>p\<close>, \<open>Copytree s d\<close> and \<open>Copy2 s d\<close> read below \<open>s\<close>
  and write below \<open>d\<close>, \<open>Print l\<close> writes the line \<open>l\<close> to standard output. A piece of
  the program returns its result, the filesystem it leaves and the events it caused.
\<close>

datatype event =
    Read string
  | Probe string
  | Unlink string
  | Copytree string string
  | Copy2 string string
  | Print string




section \<open>winutils.py\<close>

subsection \<open>\<open>is_file_into_dir\<close>\<close>

text \<open>
  \<^verbatim>\<open>
  def is_file_into_dir(filename, dirname):
      try:
          res = not os.path.relpath(filename, dirname).startswith('.')
      except ValueError:
          res = False
      return res
  \<close>
  Only a \<open>ValueError\<close> is caught; any other exception leaves the function.
\<close>

definition is_file_into_dir :: "'fs os \<Rightarrow> string \<Rightarrow> string \<Rightarrow> exn + bool" where
  "is_file_into_dir os filename dirname =
     (case path_relpath os filename dirname of
        Inr rel \<Rightarrow> Inr (\<not> startswith rel ''.'')
      | Inl (ValueError m) \<Rightarrow> Inr False
      | Inl e \<Rightarrow> Inl e)"

subsection \<open>\<open>fix_all_git_symlinked\<close>\<close>

text \<open>The two fixed files, \<open>r'\nikola\data\symlink-test-link.txt'\<close> and
  \<open>r'\nikola\data\symlinked.txt'\<close>, and the exception of line 78.\<close>

definition data_dir :: string where
  "data_dir = bslash # ''nikola'' @ bslash # ''data'' @ [bslash]"

definition sentinel_file :: "string \<Rightarrow> string" where
  "sentinel_file topdir = topdir @ data_dir @ ''symlink-test-link.txt''"

definition manifest_file :: "string \<Rightarrow> string" where
  "manifest_file topdir = topdir @ data_dir @ ''symlinked.txt''"

definition bad_data :: exn where
  "bad_data = Exception (''Bad data in '' @ data_dir @ ''symlinked.txt'')"

text \<open>
  Lines 79 to 81:
  \<^verbatim>\<open>
  relnames = text.split('\n')
  relnames = [name.strip().replace('/', '\\') for name in relnames]
  relnames = [name for name in relnames if name]
  \<close>
\<close>

definition relnames_of :: "string \<Rightarrow> string list" where
  "relnames_of text =
     (let relnames = split_chr CHR 0x0A text;
          relnames = map (\<lambda>name. replace_chr CHR ''/'' bslash (strip name)) relnames
      in filter (\<lambda>name. name \<noteq> []) relnames)"

text \<open>
  Lines 98 to 108, the first \<open>try\<close>: the source the placeholder names, or \<open>None\<close> where
  the loop goes on to the next entry (the source does not exist, lies outside
  \<open>topdir\<close>, or an exception was raised). Nothing is written.
\<close>

definition resolve_src ::
  "'fs os \<Rightarrow> string \<Rightarrow> string \<Rightarrow> string \<Rightarrow> 'fs \<Rightarrow> string option \<times> event list" where
  "resolve_src os topdir dst_dir text fs =
     (let src = path_normpath os (path_join os dst_dir text) in
      case path_exists os fs src of
        Inl e \<Rightarrow> (None, [Probe src])
      | Inr False \<Rightarrow> (None, [Probe src])
      | Inr True \<Rightarrow>
          (case is_file_into_dir os src topdir of
             Inl e \<Rightarrow> (None, [Probe src])
           | Inr False \<Rightarrow> (None, [Probe src])
           | Inr True \<Rightarrow> (Some src, [Probe src])))"

text \<open>Lines 112 to 116, the body of the second \<open>try\<close>: the exception raised, if any.\<close>

definition copy_src_to_dst ::
  "'fs os \<Rightarrow> string \<Rightarrow> string \<Rightarrow> 'fs \<Rightarrow> exn option \<times> 'fs \<times> event list" where
  "copy_src_to_dst os src dst fs =
     (case path_isdir os fs src of
        Inl e \<Rightarrow> (Some e, fs, [Probe src])
      | Inr True \<Rightarrow>
          (case os_unlink os dst fs of
             (Some e, fs1) \<Rightarrow> (Some e, fs1, [Probe src, Unlink dst])
           | (None, fs1) \<Rightarrow>
               (case shutil_copytree os src dst fs1 of
                  (r, fs2) \<Rightarrow> (r, fs2, [Probe src, Unlink dst, Copytree src dst])))
      | Inr False \<Rightarrow>
          (case shutil_copy2 os src dst fs of
             (r, fs1) \<Rightarrow> (r, fs1, [Probe src, Copy2 src dst])))"

text \<open>Lines 119 to 121: \<open>print\<close> separates its arguments by a space.\<close>

definition copy_failed :: "string \<Rightarrow> string \<Rightarrow> event list" where
  "copy_failed src dst =
     [Print ''*** copy failed for'',
      Print (CHR 0x09 # '' src: '' @ src),
      Print (CHR 0x09 # '' dst: '' @ dst)]"

text \<open>
  Lines 85 to 121, the body of the loop: \<open>Inl e\<close> when the exception \<open>e\<close> leaves the
  loop, \<open>Inr n\<close> when the loop goes on with the counter at \<open>n\<close>.
\<close>

definition process_entry ::
  "'fs os \<Rightarrow> string \<Rightarrow> string \<Rightarrow> int \<Rightarrow> 'fs \<Rightarrow> (exn + int) \<times> 'fs \<times> event list" where
  "process_entry os topdir name failures fs =
     (let dst = path_join os topdir name in
      case is_file_into_dir os dst topdir of
        Inl e \<Rightarrow> (Inl e, fs, [])
      | Inr False \<Rightarrow> (Inr failures, fs, [])
      | Inr True \<Rightarrow>
          (case path_isdir os fs dst of
             Inl e \<Rightarrow> (Inl e, fs, [Probe dst])
           | Inr True \<Rightarrow> (Inr failures, fs, [Probe dst])
           | Inr False \<Rightarrow>
               (case io_read os fs (path_join os topdir dst) of
                  Inl e \<Rightarrow> (Inl e, fs, [Probe dst, Read (path_join os topdir dst)])
                | Inr text \<Rightarrow>
                    (let dst_dir = path_dirname os dst;
                         opened = [Probe dst, Read (path_join os topdir dst)]
                     in case resolve_src os topdir dst_dir text fs of
                          (None, evs) \<Rightarrow> (Inr failures, fs, opened @ evs)
                        | (Some src, evs) \<Rightarrow>
                            (case copy_src_to_dst os src dst fs of
                               (None, fs1, evs1) \<Rightarrow> (Inr failures, fs1, opened @ evs @ evs1)
                             | (Some e, fs1, evs1) \<Rightarrow>
                                 (Inr (failures + 1), fs1,
                                  opened @ evs @ evs1 @ copy_failed src dst))))))"

text \<open>Line 84, \<open>for name in relnames\<close>.\<close>

fun for_relnames ::
  "'fs os \<Rightarrow> string \<Rightarrow> string list \<Rightarrow> int \<Rightarrow> 'fs \<Rightarrow> (exn + int) \<times> 'fs \<times> event list" where
  "for_relnames os topdir [] failures fs = (Inr failures, fs, [])"
| "for_relnames os topdir (name # rest) failures fs =
     (case process_entry os topdir name failures fs of
        (Inl e, fs1, evs) \<Rightarrow> (Inl e, fs1, evs)
      | (Inr failures1, fs1, evs) \<Rightarrow>
          (case for_relnames os topdir rest failures1 fs1 of
             (r, fs2, evs2) \<Rightarrow> (r, fs2, evs @ evs2)))"

text \<open>
  The function: the value returned (\<open>Inr\<close>) or the exception raised (\<open>Inl\<close>), the
  filesystem left and the events caused.
\<close>

definition fix_all_git_symlinked ::
  "'fs os \<Rightarrow> string \<Rightarrow> 'fs \<Rightarrow> (exn + int) \<times> 'fs \<times> event list" where
  "fix_all_git_symlinked os topdir fs =
     (case io_read os fs (sentinel_file topdir) of
        Inl e \<Rightarrow> (Inl e, fs, [Read (sentinel_file topdir)])
      | Inr text \<Rightarrow>
          if startswith text ''NIKOLA_SYMLINKS=OK''
          then (Inr (- 1), fs, [Read (sentinel_file topdir)])
          else
            (case io_read os fs (manifest_file topdir) of
               Inl e \<Rightarrow> (Inl e, fs, [Read (sentinel_file topdir), Read (manifest_file topdir)])
             | Inr text \<Rightarrow>
                 if startswith text ''.''
                 then (Inl bad_data, fs,
                       [Read (sentinel_file topdir), Read (manifest_file topdir)])
                 else
                   (case for_relnames os topdir (relnames_of text) 0 fs of
                      (r, fs1, evs) \<Rightarrow>
                        (r, fs1,
                         [Read (sentinel_file topdir), Read (manifest_file topdir)] @ evs))))"


section \<open>A model of the library on Windows\<close>

text \<open>
  A concrete instance of the record, to run the code on: the path functions follow
  \<open>ntpath.py\<close> of CPython 3.8, and the filesystem is a table from absolute paths, in
  lower case, to nodes.
\<close>

subsection \<open>\<open>ntpath\<close>\<close>

definition is_sep :: "char \<Rightarrow> bool" where
  "is_sep c = (c = bslash \<or> c = CHR ''/'')"

text \<open>\<open>s.find(c, start)\<close>, with \<open>None\<close> for \<open>-1\<close>\<close>

definition find_chr :: "char \<Rightarrow> nat \<Rightarrow> string \<Rightarrow> nat option" where
  "find_chr c start s =
     (let r = drop start s
      in if c \<in> set r then Some (start + length (takeWhile (\<lambda>x. x \<noteq> c) r)) else None)"

text \<open>\<open>c.lower()\<close> on the ASCII letters\<close>

definition lower_chr :: "char \<Rightarrow> char" where
  "lower_chr c =
     (let n = (of_char c :: nat) in if 65 \<le> n \<and> n \<le> 90 then char_of (n + 32) else c)"

definition nt_normcase :: "string \<Rightarrow> string" where
  "nt_normcase s = map lower_chr (replace_chr CHR ''/'' bslash s)"

definition nt_splitdrive :: "string \<Rightarrow> string \<times> string" where
  "nt_splitdrive p =
     (if 2 \<le> length p then
        (let normp = replace_chr CHR ''/'' bslash p in
         if take 2 normp = [bslash, bslash] \<and> take 1 (drop 2 normp) \<noteq> [bslash] then
           (case find_chr bslash 2 normp of
              None \<Rightarrow> ([], p)
            | Some index \<Rightarrow>
                (case find_chr bslash (index + 1) normp of
                   None \<Rightarrow> (p, [])
                 | Some index2 \<Rightarrow>
                     if index2 = index + 1 then ([], p)
                     else (take index2 p, drop index2 p)))
         else if take 1 (drop 1 normp) = '':'' then (take 2 p, drop 2 p)
         else ([], p))
      else ([], p))"

text \<open>\<open>ntpath.join(path, p)\<close>\<close>

definition nt_join :: "string \<Rightarrow> string \<Rightarrow> string" where
  "nt_join path p =
     (case nt_splitdrive path of (result_drive, result_path) \<Rightarrow>
      case nt_splitdrive p of (p_drive, p_path) \<Rightarrow>
      case
        (if p_path \<noteq> [] \<and> is_sep (hd p_path) then
           (if p_drive \<noteq> [] \<or> result_drive = [] then p_drive else result_drive, p_path)
         else if p_drive \<noteq> [] \<and> p_drive \<noteq> result_drive
                 \<and> map lower_chr p_drive \<noteq> map lower_chr result_drive then
           (p_drive, p_path)
         else
           (if p_drive \<noteq> [] \<and> p_drive \<noteq> result_drive then p_drive else result_drive,
            (if result_path \<noteq> [] \<and> \<not> is_sep (last result_path)
             then result_path @ [bslash] else result_path) @ p_path))
      of (drive, rest) \<Rightarrow>
        if rest \<noteq> [] \<and> \<not> is_sep (hd rest) \<and> drive \<noteq> [] \<and> last drive \<noteq> CHR '':''
        then drive @ bslash # rest
        else drive @ rest)"

text \<open>
  The loop of \<open>normpath\<close> over the components: \<open>kept\<close> holds the components before the
  index, last first; \<open>rooted\<close> says that the prefix ends with a separator.
\<close>

fun norm_comps :: "bool \<Rightarrow> string list \<Rightarrow> string list \<Rightarrow> string list" where
  "norm_comps rooted kept [] = rev kept"
| "norm_comps rooted kept (c # cs) =
     (if c = [] \<or> c = ''.'' then norm_comps rooted kept cs
      else if c = ''..'' then
        (case kept of
           k # ks \<Rightarrow>
             if k \<noteq> ''..'' then norm_comps rooted ks cs
             else norm_comps rooted (c # kept) cs
         | [] \<Rightarrow>
             if rooted then norm_comps rooted [] cs
             else norm_comps rooted [c] cs)
      else norm_comps rooted (c # kept) cs)"

definition nt_normpath :: "string \<Rightarrow> string" where
  "nt_normpath path0 =
     (if startswith path0 [bslash, bslash, CHR ''.'', bslash]
         \<or> startswith path0 [bslash, bslash, CHR ''?'', bslash] then path0
      else
        (case nt_splitdrive (replace_chr CHR ''/'' bslash path0) of (drive, path) \<Rightarrow>
         let rooted = startswith path [bslash];
             prefix = (if rooted then drive @ [bslash] else drive);
             comps = norm_comps rooted [] (split_chr bslash (dropWhile (\<lambda>c. c = bslash) path));
             comps = (if prefix = [] \<and> comps = [] then [''.''] else comps)
         in prefix @ join_chr bslash comps))"

text \<open>\<open>ntpath.dirname(p)\<close>, the head of \<open>ntpath.split(p)\<close>\<close>

definition nt_dirname :: "string \<Rightarrow> string" where
  "nt_dirname p0 =
     (case nt_splitdrive p0 of (d, p) \<Rightarrow>
      let head = rev (dropWhile (\<lambda>c. \<not> is_sep c) (rev p));
          stripped = rev (dropWhile is_sep (rev head))
      in d @ (if stripped = [] then head else stripped))"

text \<open>
  \<open>ntpath.abspath(p)\<close> for the working directory \<open>cwd\<close>: the path joined to \<open>cwd\<close> and
  normalised.
\<close>

definition nt_abspath :: "string \<Rightarrow> string \<Rightarrow> string" where
  "nt_abspath cwd p = nt_normpath (nt_join cwd p)"

text \<open>\<open>ntpath.relpath(path, start)\<close>; both of its failures are a \<open>ValueError\<close>.\<close>

definition nt_relpath :: "string \<Rightarrow> string \<Rightarrow> string \<Rightarrow> exn + string" where
  "nt_relpath cwd path start =
     (if path = [] then Inl (ValueError ''no path specified'')
      else
        (case nt_splitdrive (nt_abspath cwd (nt_normpath start)) of (start_drive, start_rest) \<Rightarrow>
         case nt_splitdrive (nt_abspath cwd (nt_normpath path)) of (path_drive, path_rest) \<Rightarrow>
         if nt_normcase start_drive \<noteq> nt_normcase path_drive
         then Inl (ValueError ''path is on another mount than start'')
         else
           (let start_list = filter (\<lambda>x. x \<noteq> []) (split_chr bslash start_rest);
                path_list = filter (\<lambda>x. x \<noteq> []) (split_chr bslash path_rest);
                i = length (takeWhile (\<lambda>(e1, e2). nt_normcase e1 = nt_normcase e2)
                              (zip start_list path_list));
                rel_list = replicate (length start_list - i) ''..'' @ drop i path_list
            in case rel_list of
                 [] \<Rightarrow> Inr ''.''
               | r # rs \<Rightarrow> Inr (foldl nt_join r rs))))"

subsection \<open>The filesystem\<close>

text \<open>
  A node is a file, with its read-only attribute and its text, or a directory. The table
  is keyed by \<open>normcase(abspath(p))\<close>; the first entry of a key counts.
\<close>

datatype node = File bool string | Dir

type_synonym ntfs = "(string \<times> node) list"

definition nt_key :: "string \<Rightarrow> string \<Rightarrow> string" where
  "nt_key cwd p = nt_normcase (nt_abspath cwd p)"

definition nt_node :: "string \<Rightarrow> ntfs \<Rightarrow> string \<Rightarrow> node option" where
  "nt_node cwd fs p = map_of fs (nt_key cwd p)"

definition nt_put :: "string \<Rightarrow> node \<Rightarrow> ntfs \<Rightarrow> ntfs" where
  "nt_put k n fs = (k, n) # filter (\<lambda>(k', _). k' \<noteq> k) fs"

text \<open>
  The keys below a directory start with its key and a backslash; \<open>rel_below d k\<close> is
  what follows in \<open>k\<close>, and \<open>nt_tree cwd fs p\<close> lists the nodes below \<open>p\<close> with their
  paths relative to \<open>p\<close>.
\<close>

definition dir_prefix :: "string \<Rightarrow> string" where
  "dir_prefix d = (if d \<noteq> [] \<and> last d = bslash then d else d @ [bslash])"

definition rel_below :: "string \<Rightarrow> string \<Rightarrow> string option" where
  "rel_below d k =
     (if startswith k (dir_prefix d) \<and> length (dir_prefix d) < length k
      then Some (drop (length (dir_prefix d)) k) else None)"

definition nt_tree :: "string \<Rightarrow> ntfs \<Rightarrow> string \<Rightarrow> (string \<times> node) list" where
  "nt_tree cwd fs p =
     List.map_filter (\<lambda>(k, n). map_option (\<lambda>r. (r, n)) (rel_below (nt_key cwd p) k)) fs"

definition nt_exists :: "string \<Rightarrow> ntfs \<Rightarrow> string \<Rightarrow> exn + bool" where
  "nt_exists cwd fs p = Inr (nt_node cwd fs p \<noteq> None)"

definition nt_isdir :: "string \<Rightarrow> ntfs \<Rightarrow> string \<Rightarrow> exn + bool" where
  "nt_isdir cwd fs p = Inr (nt_node cwd fs p = Some Dir)"

definition nt_read :: "string \<Rightarrow> ntfs \<Rightarrow> string \<Rightarrow> exn + string" where
  "nt_read cwd fs p =
     (case nt_node cwd fs p of
        Some (File ro text) \<Rightarrow> Inr text
      | Some Dir \<Rightarrow> Inl (OSError ''Permission denied'')
      | None \<Rightarrow> Inl (OSError ''No such file or directory''))"

definition nt_unlink :: "string \<Rightarrow> string \<Rightarrow> ntfs \<Rightarrow> exn option \<times> ntfs" where
  "nt_unlink cwd p fs =
     (case nt_node cwd fs p of
        Some (File False text) \<Rightarrow> (None, filter (\<lambda>(k, _). k \<noteq> nt_key cwd p) fs)
      | Some (File True text) \<Rightarrow> (Some (OSError ''Access is denied''), fs)
      | Some Dir \<Rightarrow> (Some (OSError ''Access is denied''), fs)
      | None \<Rightarrow> (Some (OSError ''The system cannot find the file specified''), fs))"

text \<open>
  \<open>shutil.copy2(s, d)\<close> where \<open>d\<close> is not a directory: the source must be a file and
  another file than \<open>d\<close>, the directory of \<open>d\<close> must exist, and a file at \<open>d\<close> must not be
  read-only; the text and the attribute are copied.
\<close>

definition nt_copy2 :: "string \<Rightarrow> string \<Rightarrow> string \<Rightarrow> ntfs \<Rightarrow> exn option \<times> ntfs" where
  "nt_copy2 cwd s d0 fs =
     (let d = (if nt_node cwd fs d0 = Some Dir
               then nt_join d0 (drop (length (nt_dirname s)) s) else d0)
      in case nt_node cwd fs s of
           Some (File ro text) \<Rightarrow>
             if nt_key cwd s = nt_key cwd d then (Some (OSError ''are the same file''), fs)
             else if nt_node cwd fs (nt_dirname (nt_abspath cwd d)) \<noteq> Some Dir
             then (Some (OSError ''No such file or directory''), fs)
             else
               (case nt_node cwd fs d of
                  Some (File True old) \<Rightarrow> (Some (OSError ''Permission denied''), fs)
                | Some Dir \<Rightarrow> (Some (OSError ''Permission denied''), fs)
                | _ \<Rightarrow> (None, nt_put (nt_key cwd d) (File ro text) fs))
         | Some Dir \<Rightarrow> (Some (OSError ''Permission denied''), fs)
         | None \<Rightarrow> (Some (OSError ''No such file or directory''), fs))"

text \<open>
  \<open>shutil.copytree(s, d)\<close>: the source must be a directory and nothing may exist at
  \<open>d\<close> or below it; the nodes below \<open>s\<close> are listed, then \<open>d\<close> becomes a directory that
  holds a copy of each.
\<close>

definition nt_copytree :: "string \<Rightarrow> string \<Rightarrow> string \<Rightarrow> ntfs \<Rightarrow> exn option \<times> ntfs" where
  "nt_copytree cwd s d fs =
     (if nt_node cwd fs s \<noteq> Some Dir then (Some (OSError ''The directory name is invalid''), fs)
      else if nt_node cwd fs d \<noteq> None \<or> nt_tree cwd fs d \<noteq> []
      then (Some (OSError ''File exists''), fs)
      else
        (None,
         (nt_key cwd d, Dir) #
         map (\<lambda>(r, n). (dir_prefix (nt_key cwd d) @ r, n)) (nt_tree cwd fs s) @ fs))"

definition nt :: "string \<Rightarrow> ntfs os" where
  "nt cwd =
     \<lparr>path_join = nt_join,
      path_normpath = nt_normpath,
      path_dirname = nt_dirname,
      path_relpath = nt_relpath cwd,
      path_exists = nt_exists cwd,
      path_isdir = nt_isdir cwd,
      io_read = nt_read cwd,
      os_unlink = nt_unlink cwd,
      shutil_copytree = nt_copytree cwd,
      shutil_copy2 = nt_copy2 cwd\<rparr>"

text \<open>A path written with \<open>/\<close>, for the examples.\<close>

definition win :: "string \<Rightarrow> string" where
  "win s = replace_chr CHR ''/'' bslash s"

subsection \<open>Checkouts\<close>

text \<open>
  The examples run in \<open>C:\\<close> on a checkout at \<open>C:\repo\<close>. A checkout is given by the
  text of its manifest and the nodes it holds beside the directories and the two test
  files of \<open>nikola\data\<close>; as git leaves it on Windows, \<open>symlink-test-link.txt\<close> holds
  the name of the file it stands for.
\<close>

definition cwd0 :: string where
  "cwd0 = win ''C:/''"

definition root0 :: string where
  "root0 = win ''C:/repo''"

definition tree :: "(string \<times> node) list \<Rightarrow> ntfs" where
  "tree nodes = map (\<lambda>(p, n). (nt_key cwd0 (win p), n)) nodes"

definition checkout :: "string \<Rightarrow> string \<Rightarrow> (string \<times> node) list \<Rightarrow> ntfs" where
  "checkout link manifest nodes =
     tree ([(''C:/'', Dir),
            (''C:/repo'', Dir),
            (''C:/repo/nikola'', Dir),
            (''C:/repo/nikola/data'', Dir),
            (''C:/repo/nikola/data/symlink-test-orig.txt'', File False ''NIKOLA_SYMLINKS=OK''),
            (''C:/repo/nikola/data/symlink-test-link.txt'', File False link),
            (''C:/repo/nikola/data/symlinked.txt'', File False manifest)] @ nodes)"

text \<open>A manifest that begins with a separator.\<close>

definition fs_leading_sep :: ntfs where
  "fs_leading_sep =
     checkout ''symlink-test-orig.txt'' ''/docs/a.txt\<newline>''
       [(''C:/repo/docs'', Dir),
        (''C:/repo/docs/a.txt'', File False ''../real/a.txt''),
        (''C:/repo/real'', Dir),
        (''C:/repo/real/a.txt'', File False ''hello'')]"

text \<open>A manifest that begins with a dot.\<close>

definition fs_leading_dot :: ntfs where
  "fs_leading_dot =
     checkout ''symlink-test-orig.txt'' ''./docs/a.txt\<newline>''
       [(''C:/repo/docs'', Dir),
        (''C:/repo/docs/a.txt'', File False ''../real/a.txt''),
        (''C:/repo/real'', Dir),
        (''C:/repo/real/a.txt'', File False ''hello'')]"

text \<open>The first of two entries names a file that the checkout does not hold.\<close>

definition fs_missing :: ntfs where
  "fs_missing =
     checkout ''symlink-test-orig.txt'' ''docs/a.txt\<newline>docs/b.txt\<newline>''
       [(''C:/repo/docs'', Dir),
        (''C:/repo/docs/b.txt'', File False ''../real/b.txt''),
        (''C:/repo/real'', Dir),
        (''C:/repo/real/b.txt'', File False ''world'')]"

text \<open>An installation from a \<open>.tar.gz\<close>: the link holds the text of its target.\<close>

definition fs_tarball :: ntfs where
  "fs_tarball =
     checkout ''NIKOLA_SYMLINKS=OK'' ''docs/a.txt\<newline>''
       [(''C:/repo/docs'', Dir),
        (''C:/repo/docs/a.txt'', File False ''hello''),
        (''C:/repo/real'', Dir),
        (''C:/repo/real/a.txt'', File False ''hello'')]"

text \<open>One entry \<open>docs/a.txt\<close> holding \<open>../real/a.txt\<close>, with the text at \<open>docs/real/a.txt\<close>.\<close>

definition fs_docs_real :: ntfs where
  "fs_docs_real =
     checkout ''symlink-test-orig.txt'' ''docs/a.txt\<newline>''
       [(''C:/repo/docs'', Dir),
        (''C:/repo/docs/a.txt'', File False ''../real/a.txt''),
        (''C:/repo/docs/real'', Dir),
        (''C:/repo/docs/real/a.txt'', File False ''hello'')]"

text \<open>The same entry, with the text at \<open>real/a.txt\<close>.\<close>

definition fs_real :: ntfs where
  "fs_real =
     checkout ''symlink-test-orig.txt'' ''docs/a.txt\<newline>''
       [(''C:/repo/docs'', Dir),
        (''C:/repo/docs/a.txt'', File False ''../real/a.txt''),
        (''C:/repo/real'', Dir),
        (''C:/repo/real/a.txt'', File False ''hello'')]"

text \<open>Two entries; the placeholder of the first is read-only, so that its copy fails.\<close>

definition fs_read_only :: ntfs where
  "fs_read_only =
     checkout ''symlink-test-orig.txt'' ''docs/a.txt\<newline>docs/b.txt\<newline>''
       [(''C:/repo/docs'', Dir),
        (''C:/repo/docs/a.txt'', File True ''../real/a.txt''),
        (''C:/repo/docs/b.txt'', File False ''../real/b.txt''),
        (''C:/repo/real'', Dir),
        (''C:/repo/real/a.txt'', File False ''hello''),
        (''C:/repo/real/b.txt'', File False ''world'')]"

text \<open>One entry that stands for a directory.\<close>

definition fs_theme :: ntfs where
  "fs_theme =
     checkout ''symlink-test-orig.txt'' ''docs/theme\<newline>''
       [(''C:/repo/docs'', Dir),
        (''C:/repo/docs/theme'', File False ''../real/theme''),
        (''C:/repo/real'', Dir),
        (''C:/repo/real/theme'', Dir),
        (''C:/repo/real/theme/base.css'', File False ''body {}''),
        (''C:/repo/real/theme/img'', Dir),
        (''C:/repo/real/theme/img/logo.svg'', File False ''<svg/>'')]"


text \<open>The entry of \<open>fs_real\<close>, with a read-only placeholder.\<close>

definition fs_locked :: ntfs where
  "fs_locked =
     checkout ''symlink-test-orig.txt'' ''docs/a.txt\<newline>''
       [(''C:/repo/docs'', Dir),
        (''C:/repo/docs/a.txt'', File True ''../real/a.txt''),
        (''C:/repo/real'', Dir),
        (''C:/repo/real/a.txt'', File False ''hello'')]"

text \<open>The same entry, with the text in a directory whose name begins with a dot.\<close>

definition fs_dot_real :: ntfs where
  "fs_dot_real =
     checkout ''symlink-test-orig.txt'' ''docs/a.txt\<newline>''
       [(''C:/repo/docs'', Dir),
        (''C:/repo/docs/a.txt'', File False ''../.real/a.txt''),
        (''C:/repo/.real'', Dir),
        (''C:/repo/.real/a.txt'', File False ''hello'')]"

text \<open>An entry that stands for a directory, with a read-only placeholder.\<close>

definition fs_theme_locked :: ntfs where
  "fs_theme_locked =
     checkout ''symlink-test-orig.txt'' ''docs/theme\<newline>''
       [(''C:/repo/docs'', Dir),
        (''C:/repo/docs/theme'', File True ''../real/theme''),
        (''C:/repo/real'', Dir),
        (''C:/repo/real/theme'', Dir),
        (''C:/repo/real/theme/base.css'', File False ''body {}'')]"

text \<open>An entry that stands for a directory below one whose name begins with a dot.\<close>

definition fs_dot_themes :: ntfs where
  "fs_dot_themes =
     checkout ''symlink-test-orig.txt'' ''docs/theme\<newline>''
       [(''C:/repo/docs'', Dir),
        (''C:/repo/docs/theme'', File False ''../.themes/base''),
        (''C:/repo/.themes'', Dir),
        (''C:/repo/.themes/base'', Dir),
        (''C:/repo/.themes/base/base.css'', File False ''body {}'')]"

text \<open>An entry whose placeholder names the directory it lies in.\<close>

definition fs_self :: ntfs where
  "fs_self =
     checkout ''symlink-test-orig.txt'' ''docs/link\<newline>''
       [(''C:/repo/docs'', Dir),
        (''C:/repo/docs/a.txt'', File False ''hello''),
        (''C:/repo/docs/link'', File False ''.'')]"

text \<open>
  Two entries: the first stands for a directory, the second is a file of that directory
  and names a file beside it.
\<close>

definition fs_theme_note :: ntfs where
  "fs_theme_note =
     checkout ''symlink-test-orig.txt'' ''docs/theme\<newline>docs/theme/note.txt\<newline>''
       [(''C:/repo/docs'', Dir),
        (''C:/repo/docs/other.txt'', File False ''other''),
        (''C:/repo/docs/theme'', File False ''../real/theme''),
        (''C:/repo/real'', Dir),
        (''C:/repo/real/theme'', Dir),
        (''C:/repo/real/theme/note.txt'', File False ''../other.txt'')]"


section \<open>The counter\<close>

lemma process_entry_count:
  assumes "process_entry os topdir name k fs = (Inr n, fs', evs)"
  shows "n = k \<or> n = k + 1"
  using assms unfolding process_entry_def Let_def
  by (auto split: sum.splits bool.splits option.splits prod.splits)

lemma for_relnames_count:
  "for_relnames os topdir names k fs = (Inr n, fs', evs)
   \<Longrightarrow> k \<le> n \<and> n \<le> k + int (length names)"
proof (induction names arbitrary: k fs fs' evs)
  case Nil
  then show ?case by simp
next
  case (Cons name rest)
  from Cons.prems obtain k1 fs1 evs1 evs2 where
    step: "process_entry os topdir name k fs = (Inr k1, fs1, evs1)" and
    rest: "for_relnames os topdir rest k1 fs1 = (Inr n, fs', evs2)"
    by (auto split: sum.splits prod.splits)
  from process_entry_count [OF step] Cons.IH [OF rest] show ?case by auto
qed

text \<open>
  Claim C10. Whenever \<open>fix_all_git_symlinked\<close> returns, the value is \<open>-1\<close>, and then the
  sentinel file begins with the marker, or the sentinel file does not begin with it and
  the value lies between 0 and the number of non-empty entries of the manifest.
\<close>

theorem fix_all_git_symlinked_return_range:
  assumes "fix_all_git_symlinked os topdir fs = (Inr n, fs', evs)"
  shows "(\<exists>link. io_read os fs (sentinel_file topdir) = Inr link
            \<and> startswith link ''NIKOLA_SYMLINKS=OK'' \<and> n = - 1)
       \<or> (\<exists>link manifest. io_read os fs (sentinel_file topdir) = Inr link
            \<and> \<not> startswith link ''NIKOLA_SYMLINKS=OK''
            \<and> io_read os fs (manifest_file topdir) = Inr manifest
            \<and> 0 \<le> n \<and> n \<le> int (length (relnames_of manifest)))"
proof -
  obtain link where link: "io_read os fs (sentinel_file topdir) = Inr link"
    using assms unfolding fix_all_git_symlinked_def by (auto split: sum.splits)
  show ?thesis
  proof (cases "startswith link ''NIKOLA_SYMLINKS=OK''")
    case True
    with assms link have "n = - 1"
      unfolding fix_all_git_symlinked_def by simp
    with link True show ?thesis by blast
  next
    case False
    with assms link obtain manifest where
      manifest: "io_read os fs (manifest_file topdir) = Inr manifest"
      unfolding fix_all_git_symlinked_def by (auto split: sum.splits)
    with assms link False obtain evs1 where
      "for_relnames os topdir (relnames_of manifest) 0 fs = (Inr n, fs', evs1)"
      unfolding fix_all_git_symlinked_def by (auto split: sum.splits if_splits prod.splits)
    from for_relnames_count [OF this] link False manifest show ?thesis by auto
  qed
qed

theorem fix_all_git_symlinked_return_range_witness:
  "fst (fix_all_git_symlinked (nt cwd0) root0 fs_read_only) = Inr 1
   \<and> (\<exists>link manifest. io_read (nt cwd0) fs_read_only (sentinel_file root0) = Inr link
          \<and> \<not> startswith link ''NIKOLA_SYMLINKS=OK''
          \<and> io_read (nt cwd0) fs_read_only (manifest_file root0) = Inr manifest
          \<and> (0::int) \<le> 1 \<and> 1 \<le> int (length (relnames_of manifest)))"
proof -
  have run: "fst (fix_all_git_symlinked (nt cwd0) root0 fs_read_only) = Inr 1"
    by code_simp
  then obtain fs' evs where
    "fix_all_git_symlinked (nt cwd0) root0 fs_read_only = (Inr 1, fs', evs)"
    by (metis prod.collapse)
  from fix_all_git_symlinked_return_range [OF this] run show ?thesis by simp
qed

section \<open>The sentinel\<close>

lemma past_sentinel_nonneg:
  assumes "io_read os fs (sentinel_file topdir) = Inr link"
    and "\<not> startswith link ''NIKOLA_SYMLINKS=OK''"
    and "fix_all_git_symlinked os topdir fs = (Inr n, fs', evs)"
  shows "0 \<le> n"
proof -
  from assms obtain manifest evs1 where
    "for_relnames os topdir (relnames_of manifest) 0 fs = (Inr n, fs', evs1)"
    unfolding fix_all_git_symlinked_def by (auto split: sum.splits if_splits prod.splits)
  from for_relnames_count [OF this] show ?thesis by simp
qed

text \<open>
  Claim C5. When the sentinel file begins with \<open>NIKOLA_SYMLINKS=OK\<close>, the function
  returns \<open>-1\<close> at once: the filesystem is the one it started from and the read of the
  sentinel file is the only event. No run that gets past the sentinel returns \<open>-1\<close>.
\<close>

theorem sentinel_marker_returns_minus_one:
  assumes "io_read os fs (sentinel_file topdir) = Inr link"
    and "startswith link ''NIKOLA_SYMLINKS=OK''"
  shows "fix_all_git_symlinked os topdir fs = (Inr (- 1), fs, [Read (sentinel_file topdir)])
       \<and> (\<forall>fs0 link0 n fs1 evs.
            io_read os fs0 (sentinel_file topdir) = Inr link0
            \<and> \<not> startswith link0 ''NIKOLA_SYMLINKS=OK''
            \<and> fix_all_git_symlinked os topdir fs0 = (Inr n, fs1, evs)
            \<longrightarrow> n \<noteq> - 1)"
proof
  show "fix_all_git_symlinked os topdir fs = (Inr (- 1), fs, [Read (sentinel_file topdir)])"
    using assms unfolding fix_all_git_symlinked_def by simp
next
  show "\<forall>fs0 link0 n fs1 evs.
            io_read os fs0 (sentinel_file topdir) = Inr link0
            \<and> \<not> startswith link0 ''NIKOLA_SYMLINKS=OK''
            \<and> fix_all_git_symlinked os topdir fs0 = (Inr n, fs1, evs)
            \<longrightarrow> n \<noteq> - 1"
    using past_sentinel_nonneg by fastforce
qed

theorem sentinel_marker_returns_minus_one_witness:
  "io_read (nt cwd0) fs_tarball (sentinel_file root0) = Inr ''NIKOLA_SYMLINKS=OK''
   \<and> startswith ''NIKOLA_SYMLINKS=OK'' ''NIKOLA_SYMLINKS=OK''
   \<and> fix_all_git_symlinked (nt cwd0) root0 fs_tarball
       = (Inr (- 1), fs_tarball, [Read (sentinel_file root0)])
   \<and> io_read (nt cwd0) fs_real (sentinel_file root0) = Inr ''symlink-test-orig.txt''
   \<and> \<not> startswith ''symlink-test-orig.txt'' ''NIKOLA_SYMLINKS=OK''
   \<and> fst (fix_all_git_symlinked (nt cwd0) root0 fs_real) = Inr 0"
proof -
  have h1: "io_read (nt cwd0) fs_tarball (sentinel_file root0) = Inr ''NIKOLA_SYMLINKS=OK''"
    by code_simp
  have h2: "startswith ''NIKOLA_SYMLINKS=OK'' ''NIKOLA_SYMLINKS=OK''"
    by code_simp
  have h3: "io_read (nt cwd0) fs_real (sentinel_file root0) = Inr ''symlink-test-orig.txt''"
    by code_simp
  have h4: "\<not> startswith ''symlink-test-orig.txt'' ''NIKOLA_SYMLINKS=OK''"
    by code_simp
  have h5: "fst (fix_all_git_symlinked (nt cwd0) root0 fs_real) = Inr 0"
    by code_simp
  from sentinel_marker_returns_minus_one [OF h1 h2] h1 h2 h3 h4 h5 show ?thesis by blast
qed


section \<open>The manifest\<close>

text \<open>
  Claim C1, as amended. The check of line 77 is for a leading dot, not for a leading
  separator: when the manifest begins with \<open>.\<close>, the function raises the exception of
  line 78, the filesystem is the one it started from, and the reads of the sentinel file
  and of the manifest are the only events.
\<close>

theorem manifest_leading_dot_raises:
  assumes "io_read os fs (sentinel_file topdir) = Inr link"
    and "\<not> startswith link ''NIKOLA_SYMLINKS=OK''"
    and "io_read os fs (manifest_file topdir) = Inr manifest"
    and "startswith manifest ''.''"
  shows "fix_all_git_symlinked os topdir fs
         = (Inl bad_data, fs, [Read (sentinel_file topdir), Read (manifest_file topdir)])"
  using assms unfolding fix_all_git_symlinked_def by simp

theorem manifest_leading_dot_raises_witness:
  "io_read (nt cwd0) fs_leading_dot (sentinel_file root0) = Inr ''symlink-test-orig.txt''
   \<and> \<not> startswith ''symlink-test-orig.txt'' ''NIKOLA_SYMLINKS=OK''
   \<and> io_read (nt cwd0) fs_leading_dot (manifest_file root0) = Inr ''./docs/a.txt\<newline>''
   \<and> startswith ''./docs/a.txt\<newline>'' ''.''
   \<and> fix_all_git_symlinked (nt cwd0) root0 fs_leading_dot
       = (Inl bad_data, fs_leading_dot, [Read (sentinel_file root0), Read (manifest_file root0)])"
proof -
  have h1: "io_read (nt cwd0) fs_leading_dot (sentinel_file root0) = Inr ''symlink-test-orig.txt''"
    by code_simp
  have h2: "\<not> startswith ''symlink-test-orig.txt'' ''NIKOLA_SYMLINKS=OK''"
    by code_simp
  have h3: "io_read (nt cwd0) fs_leading_dot (manifest_file root0) = Inr ''./docs/a.txt\<newline>''"
    by code_simp
  have h4: "startswith ''./docs/a.txt\<newline>'' ''.''"
    by code_simp
  from manifest_leading_dot_raises [OF h1 h2 h3 h4] h1 h2 h3 h4 show ?thesis by blast
qed

text \<open>
  Claim C1 as stated fails: a manifest that begins with the separator \<open>/\<close> raises
  nothing. Its entry \<open>\docs\a.txt\<close> joins to \<open>C:\docs\a.txt\<close>, outside of the
  checkout, and is passed over; the function returns 0.
\<close>

theorem manifest_leading_separator_counterexample:
  "io_read (nt cwd0) fs_leading_sep (manifest_file root0) = Inr ''/docs/a.txt\<newline>''
   \<and> startswith ''/docs/a.txt\<newline>'' ''/''
   \<and> fix_all_git_symlinked (nt cwd0) root0 fs_leading_sep
       = (Inr 0, fs_leading_sep, [Read (sentinel_file root0), Read (manifest_file root0)])"
  by code_simp


section \<open>Containment\<close>

text \<open>
  Claim C4, at the input where the code departs from it. The path of
  \<open>C:\repo\.gitignore\<close> relative to \<open>C:\repo\<close> is \<open>.gitignore\<close>, which does not begin
  with a \<open>..\<close> segment, and the file is in the directory; \<open>is_file_into_dir\<close> returns
  \<open>False\<close>, since it tests the first character only.
\<close>

theorem is_file_into_dir_rejects_dot_file:
  "path_relpath (nt cwd0) (win ''C:/repo/.gitignore'') root0 = Inr ''.gitignore''
   \<and> is_file_into_dir (nt cwd0) (win ''C:/repo/.gitignore'') root0 = Inr False"
  by code_simp


section \<open>Parsing\<close>

lemma split_chr_not_Nil: "split_chr c s \<noteq> []"
  by (induction s) (auto split: list.splits)

lemma join_chr_Cons: "ws \<noteq> [] \<Longrightarrow> join_chr c (w # ws) = w @ c # join_chr c ws"
  by (cases ws) simp_all

lemma join_chr_split_chr: "join_chr c (split_chr c s) = s"
proof (induction s)
  case Nil
  show ?case by simp
next
  case (Cons x xs)
  show ?case
  proof (cases "x = c")
    case True
    with Cons show ?thesis by (simp add: join_chr_Cons split_chr_not_Nil)
  next
    case False
    obtain w ws where ws: "split_chr c xs = w # ws"
      using split_chr_not_Nil [of c xs] by (cases "split_chr c xs") auto
    with Cons have "join_chr c (w # ws) = xs" by simp
    then have "join_chr c ((x # w) # ws) = x # xs"
      by (cases ws) auto
    with False ws show ?thesis by simp
  qed
qed

lemma split_chr_no_sep: "line \<in> set (split_chr c s) \<Longrightarrow> c \<notin> set line"
proof (induction s arbitrary: line)
  case Nil
  then show ?case by simp
next
  case (Cons x xs)
  then show ?case
    by (cases "split_chr c xs") (auto split: if_splits)
qed

lemma strip_decomp:
  "\<exists>a b. line = a @ strip line @ b \<and> (\<forall>c\<in>set a. isspace c) \<and> (\<forall>c\<in>set b. isspace c)"
proof -
  let ?a = "takeWhile isspace line"
  let ?m = "dropWhile isspace line"
  let ?b = "rev (takeWhile isspace (rev ?m))"
  have "line = ?a @ ?m" by simp
  moreover have "rev ?m = takeWhile isspace (rev ?m) @ dropWhile isspace (rev ?m)" by simp
  then have "?m = strip line @ ?b"
    unfolding strip_def by (metis rev_append rev_rev_ident)
  ultimately have "line = ?a @ strip line @ ?b" by simp
  moreover have "\<forall>c\<in>set ?a. isspace c" by (auto dest: set_takeWhileD)
  moreover have "\<forall>c\<in>set ?b. isspace c" by (auto dest: set_takeWhileD)
  ultimately show ?thesis by blast
qed

lemma strip_ends:
  assumes "strip line \<noteq> []"
  shows "\<not> isspace (hd (strip line)) \<and> \<not> isspace (last (strip line))"
proof -
  let ?m = "dropWhile isspace line"
  let ?r = "dropWhile isspace (rev ?m)"
  from assms have r: "?r \<noteq> []" by (simp add: strip_def)
  then have "\<not> isspace (hd ?r)" by (rule hd_dropWhile)
  with r have last: "\<not> isspace (last (strip line))"
    by (simp add: strip_def last_rev)
  have m: "?m \<noteq> []"
    using r by (metis dropWhile.simps(1) rev.simps(1))
  then have hdm: "\<not> isspace (hd ?m)" by (rule hd_dropWhile)
  have "?m = strip line @ rev (takeWhile isspace (rev ?m))"
    unfolding strip_def by (metis rev_append rev_rev_ident takeWhile_dropWhile_id)
  with assms have "hd ?m = hd (strip line)" by (metis hd_append2)
  with hdm last show ?thesis by simp
qed

text \<open>
  Claim C9. The lines of the manifest are the pieces between its line feeds, in order
  (joined by line feeds they give the manifest back, and none holds a line feed);
  \<open>strip\<close> removes white space, and only white space, from both ends of a line;
  \<open>replace\<close> turns every separator into the backslash of the host; and the entries
  are the stripped lines that are not empty, in order, with their separators
  replaced. No entry is empty or holds a \<open>/\<close>.
\<close>

theorem relnames_of_parses_manifest:
  "join_chr CHR 0x0A (split_chr CHR 0x0A manifest) = manifest
   \<and> (\<forall>line \<in> set (split_chr CHR 0x0A manifest). CHR 0x0A \<notin> set line)
   \<and> (\<forall>line. \<exists>a b. line = a @ strip line @ b
          \<and> (\<forall>c\<in>set a. isspace c) \<and> (\<forall>c\<in>set b. isspace c)
          \<and> (strip line \<noteq> [] \<longrightarrow> \<not> isspace (hd (strip line)) \<and> \<not> isspace (last (strip line))))
   \<and> (\<forall>name. replace_chr CHR ''/'' bslash name
          = map (\<lambda>c. if is_sep c then bslash else c) name)
   \<and> relnames_of manifest
       = map (replace_chr CHR ''/'' bslash)
           (filter (\<lambda>line. line \<noteq> []) (map strip (split_chr CHR 0x0A manifest)))
   \<and> (\<forall>name \<in> set (relnames_of manifest). name \<noteq> [] \<and> CHR ''/'' \<notin> set name)"
proof -
  have a: "join_chr CHR 0x0A (split_chr CHR 0x0A manifest) = manifest"
    by (rule join_chr_split_chr)
  have b: "\<forall>line \<in> set (split_chr CHR 0x0A manifest). CHR 0x0A \<notin> set line"
    using split_chr_no_sep by blast
  have c: "\<forall>line. \<exists>a b. line = a @ strip line @ b
          \<and> (\<forall>c\<in>set a. isspace c) \<and> (\<forall>c\<in>set b. isspace c)
          \<and> (strip line \<noteq> [] \<longrightarrow> \<not> isspace (hd (strip line)) \<and> \<not> isspace (last (strip line)))"
    using strip_decomp strip_ends by metis
  have d: "\<forall>name. replace_chr CHR ''/'' bslash name
          = map (\<lambda>c. if is_sep c then bslash else c) name"
    by (auto simp: replace_chr_def is_sep_def)
  have e: "relnames_of manifest
       = map (replace_chr CHR ''/'' bslash)
           (filter (\<lambda>line. line \<noteq> []) (map strip (split_chr CHR 0x0A manifest)))"
    by (simp add: relnames_of_def Let_def filter_map comp_def replace_chr_def)
  have f: "\<forall>name \<in> set (relnames_of manifest). name \<noteq> [] \<and> CHR ''/'' \<notin> set name"
    by (auto simp: relnames_of_def Let_def replace_chr_def)
  from a b c d e f show ?thesis by blast
qed

theorem relnames_of_parses_manifest_witness:
  "relnames_of (''docs/a.txt  '' @ [CHR 0x0D, CHR 0x0A, CHR 0x09] @ ''b/c\<newline>\<newline>   \<newline>'')
     = [win ''docs/a.txt'', win ''b/c'']
   \<and> join_chr CHR 0x0A
         (split_chr CHR 0x0A
            (''docs/a.txt  '' @ [CHR 0x0D, CHR 0x0A, CHR 0x09] @ ''b/c\<newline>\<newline>   \<newline>''))
       = ''docs/a.txt  '' @ [CHR 0x0D, CHR 0x0A, CHR 0x09] @ ''b/c\<newline>\<newline>   \<newline>''
   \<and> relnames_of (''docs/a.txt  '' @ [CHR 0x0D, CHR 0x0A, CHR 0x09] @ ''b/c\<newline>\<newline>   \<newline>'')
       = map (replace_chr CHR ''/'' bslash)
           (filter (\<lambda>line. line \<noteq> [])
              (map strip
                 (split_chr CHR 0x0A
                    (''docs/a.txt  '' @ [CHR 0x0D, CHR 0x0A, CHR 0x09] @ ''b/c\<newline>\<newline>   \<newline>''))))"
proof -
  have "relnames_of (''docs/a.txt  '' @ [CHR 0x0D, CHR 0x0A, CHR 0x09] @ ''b/c\<newline>\<newline>   \<newline>'')
     = [win ''docs/a.txt'', win ''b/c'']"
    by code_simp
  with relnames_of_parses_manifest
    [of "''docs/a.txt  '' @ [CHR 0x0D, CHR 0x0A, CHR 0x09] @ ''b/c\<newline>\<newline>   \<newline>''"]
  show ?thesis by blast
qed

section \<open>The loop\<close>

text \<open>An entry that passes every check is copied; the counter moves when the copy raised.\<close>

lemma process_entry_valid:
  assumes "is_file_into_dir os (path_join os topdir name) topdir = Inr True"
    and "path_isdir os fs (path_join os topdir name) = Inr False"
    and "io_read os fs (path_join os topdir (path_join os topdir name)) = Inr target"
    and "src = path_normpath os
                 (path_join os (path_dirname os (path_join os topdir name)) target)"
    and "path_exists os fs src = Inr True"
    and "is_file_into_dir os src topdir = Inr True"
    and "copy_src_to_dst os src (path_join os topdir name) fs = (r, fs1, evs)"
  shows "process_entry os topdir name k fs =
           (Inr (case r of None \<Rightarrow> k | Some e \<Rightarrow> k + 1), fs1,
            [Probe (path_join os topdir name),
             Read (path_join os topdir (path_join os topdir name)),
             Probe src] @ evs @
            (case r of None \<Rightarrow> [] | Some e \<Rightarrow> copy_failed src (path_join os topdir name)))"
  using assms unfolding process_entry_def resolve_src_def Let_def
  by (simp split: option.splits)

lemma for_relnames_append:
  "for_relnames os topdir (xs @ ys) k fs =
     (case for_relnames os topdir xs k fs of
        (Inl e, fs1, evs1) \<Rightarrow> (Inl e, fs1, evs1)
      | (Inr k1, fs1, evs1) \<Rightarrow>
          (case for_relnames os topdir ys k1 fs1 of
             (r, fs2, evs2) \<Rightarrow> (r, fs2, evs1 @ evs2)))"
  by (induction xs arbitrary: k fs) (auto split: sum.splits prod.splits)

lemma fix_past_checks:
  assumes "io_read os fs (sentinel_file topdir) = Inr link"
    and "\<not> startswith link ''NIKOLA_SYMLINKS=OK''"
    and "io_read os fs (manifest_file topdir) = Inr manifest"
    and "\<not> startswith manifest ''.''"
  shows "fix_all_git_symlinked os topdir fs =
           (case for_relnames os topdir (relnames_of manifest) 0 fs of
              (r, fs1, evs) \<Rightarrow>
                (r, fs1, [Read (sentinel_file topdir), Read (manifest_file topdir)] @ evs))"
  using assms unfolding fix_all_git_symlinked_def by simp

section \<open>What the model of the library keeps\<close>

text \<open>
  In the model of Windows, a copy that succeeded onto a path that was no directory
  leaves there the text of the source, and a tree copy that succeeded leaves a
  directory that lists what the source listed.
\<close>

lemma nt_copy2_contract:
  assumes "nt_isdir cwd f d = Inr False" and "nt_copy2 cwd s d f = (None, f')"
  shows "nt_read cwd f' d = nt_read cwd f s"
proof -
  from assms(1) have nd: "nt_node cwd f d \<noteq> Some Dir"
    by (simp add: nt_isdir_def)
  from assms(2) nd obtain ro body where
    src: "nt_node cwd f s = Some (File ro body)" and
    f': "f' = nt_put (nt_key cwd d) (File ro body) f"
    unfolding nt_copy2_def Let_def
    by (auto split: option.splits node.splits if_splits bool.splits)
  have "nt_node cwd f' d = Some (File ro body)"
    by (simp add: f' nt_node_def nt_put_def)
  with src show ?thesis by (simp add: nt_read_def)
qed

lemma rel_below_self: "rel_below d d = None"
  by (simp add: rel_below_def dir_prefix_def)

lemma rel_below_prefix: "r \<noteq> [] \<Longrightarrow> rel_below d (dir_prefix d @ r) = Some r"
  by (simp add: rel_below_def startswith_def)

lemma rel_below_not_Nil: "rel_below d k = Some r \<Longrightarrow> r \<noteq> []"
  by (auto simp: rel_below_def split: if_splits)

lemma nt_tree_not_Nil: "(r, n) \<in> set (nt_tree cwd f p) \<Longrightarrow> r \<noteq> []"
  by (auto simp: nt_tree_def List.map_filter_def dest: rel_below_not_Nil)

lemma map_filter_append:
  "List.map_filter g (xs @ ys) = List.map_filter g xs @ List.map_filter g ys"
  by (simp add: List.map_filter_def)

lemma map_filter_relocate:
  assumes "\<forall>(r, n) \<in> set rows. r \<noteq> []"
  shows "List.map_filter (\<lambda>(k, n). map_option (\<lambda>r. (r, n)) (rel_below d k))
           (map (\<lambda>(r, n). (dir_prefix d @ r, n)) rows) = rows"
  using assms
  by (induction rows) (auto simp: rel_below_prefix)

lemma nt_copytree_tree:
  assumes "nt_copytree cwd s d f = (None, f')"
  shows "nt_tree cwd f' d = nt_tree cwd f s"
proof -
  let ?g = "\<lambda>(k, n). map_option (\<lambda>r. (r, n)) (rel_below (nt_key cwd d) k)"
  from assms have empty: "nt_tree cwd f d = []" and
    f': "f' = (nt_key cwd d, Dir) #
              map (\<lambda>(r, n). (dir_prefix (nt_key cwd d) @ r, n)) (nt_tree cwd f s) @ f"
    unfolding nt_copytree_def by (auto split: if_splits)
  have rows: "\<forall>(r, n) \<in> set (nt_tree cwd f s). r \<noteq> []"
    using nt_tree_not_Nil by fastforce
  have "nt_tree cwd f' d =
          List.map_filter ?g
            (map (\<lambda>(r, n). (dir_prefix (nt_key cwd d) @ r, n)) (nt_tree cwd f s))
          @ List.map_filter ?g f"
    by (simp add: f' nt_tree_def rel_below_self map_filter_append)
  also have "List.map_filter ?g f = []"
    using empty by (simp add: nt_tree_def)
  also have "List.map_filter ?g
            (map (\<lambda>(r, n). (dir_prefix (nt_key cwd d) @ r, n)) (nt_tree cwd f s))
          = nt_tree cwd f s"
    by (rule map_filter_relocate [OF rows])
  finally show ?thesis by simp
qed

lemma nt_copytree_isdir:
  assumes "nt_copytree cwd s d f = (None, f')"
  shows "nt_isdir cwd f' d = Inr True"
  using assms unfolding nt_copytree_def
  by (auto simp: nt_isdir_def nt_node_def split: if_splits)

section \<open>Confinement\<close>








section \<open>Errors within an entry\<close>

lemma process_entry_returns:
  assumes "is_file_into_dir os (path_join os topdir name) topdir = Inr inside"
    and "inside \<Longrightarrow> path_isdir os fs (path_join os topdir name) = Inr dir"
    and "inside \<Longrightarrow> \<not> dir
         \<Longrightarrow> io_read os fs (path_join os topdir (path_join os topdir name)) = Inr target"
  shows "\<exists>k1 fs1 evs. process_entry os topdir name k fs = (Inr k1, fs1, evs)"
proof (cases "inside \<and> \<not> dir")
  case False
  with assms(1,2) show ?thesis
    unfolding process_entry_def Let_def by (cases inside) auto
next
  case True
  with assms have
    "is_file_into_dir os (path_join os topdir name) topdir = Inr True"
    "path_isdir os fs (path_join os topdir name) = Inr False"
    "io_read os fs (path_join os topdir (path_join os topdir name)) = Inr target"
    by simp_all
  then show ?thesis
    unfolding process_entry_def Let_def
    by (simp split: prod.splits option.splits)
qed

text \<open>
  Claim C2, as amended. Take any entry of the manifest, reached after the entries before
  it. If the containment check of its destination, the test whether the destination is a
  directory, and the read of the placeholder do not raise, then whatever the resolution
  of the source and the copy raise, the entry returns to the loop, with the counter as
  it was or one more, and the run is the run of the entries after it from there. The
  statement asks nothing of \<open>path_exists\<close>, of the containment check of the source, of
  \<open>os_unlink\<close>, \<open>shutil_copytree\<close> or \<open>shutil_copy2\<close>.
\<close>

theorem entry_errors_do_not_abort:
  assumes "io_read os fs (sentinel_file topdir) = Inr link"
    and "\<not> startswith link ''NIKOLA_SYMLINKS=OK''"
    and "io_read os fs (manifest_file topdir) = Inr manifest"
    and "\<not> startswith manifest ''.''"
    and names: "relnames_of manifest = before @ name # after"
    and before: "for_relnames os topdir before 0 fs = (Inr k, fs1, evs1)"
    and inside: "is_file_into_dir os (path_join os topdir name) topdir = Inr inside"
    and isdir: "inside \<Longrightarrow> path_isdir os fs1 (path_join os topdir name) = Inr dir"
    and placeholder: "inside \<Longrightarrow> \<not> dir
         \<Longrightarrow> io_read os fs1 (path_join os topdir (path_join os topdir name)) = Inr target"
  shows "\<exists>k1 fs2 evs2.
           process_entry os topdir name k fs1 = (Inr k1, fs2, evs2)
           \<and> (k1 = k \<or> k1 = k + 1)
           \<and> fix_all_git_symlinked os topdir fs =
               (case for_relnames os topdir after k1 fs2 of
                  (r, fs3, evs3) \<Rightarrow>
                    (r, fs3,
                     [Read (sentinel_file topdir), Read (manifest_file topdir)]
                     @ evs1 @ evs2 @ evs3))"
proof -
  from process_entry_returns [OF inside isdir placeholder] obtain k1 fs2 evs2 where
    step: "process_entry os topdir name k fs1 = (Inr k1, fs2, evs2)"
    by blast
  have count: "k1 = k \<or> k1 = k + 1"
    by (rule process_entry_count [OF step])
  have "fix_all_git_symlinked os topdir fs =
          (case for_relnames os topdir (before @ name # after) 0 fs of
             (r, fs3, evs) \<Rightarrow>
               (r, fs3, [Read (sentinel_file topdir), Read (manifest_file topdir)] @ evs))"
    using fix_past_checks [OF assms(1-4)] names by simp
  also have "\<dots> =
          (case for_relnames os topdir after k1 fs2 of
             (r, fs3, evs3) \<Rightarrow>
               (r, fs3,
                [Read (sentinel_file topdir), Read (manifest_file topdir)]
                @ evs1 @ evs2 @ evs3))"
    by (simp add: for_relnames_append before step split: prod.splits)
  finally show ?thesis using step count by blast
qed

theorem entry_errors_do_not_abort_witness:
  "io_read (nt cwd0) fs_read_only (manifest_file root0)
     = Inr ''docs/a.txt\<newline>docs/b.txt\<newline>''
   \<and> relnames_of ''docs/a.txt\<newline>docs/b.txt\<newline>''
       = [] @ win ''docs/a.txt'' # [win ''docs/b.txt'']
   \<and> fst (copy_src_to_dst (nt cwd0) (win ''C:/repo/real/a.txt'') (win ''C:/repo/docs/a.txt'')
            fs_read_only)
       = Some (OSError ''Permission denied'')
   \<and> (\<exists>k1 fs2 evs2.
         process_entry (nt cwd0) root0 (win ''docs/a.txt'') 0 fs_read_only = (Inr k1, fs2, evs2)
         \<and> (k1 = 0 \<or> k1 = 0 + 1)
         \<and> fix_all_git_symlinked (nt cwd0) root0 fs_read_only =
             (case for_relnames (nt cwd0) root0 [win ''docs/b.txt''] k1 fs2 of
                (r, fs3, evs3) \<Rightarrow>
                  (r, fs3,
                   [Read (sentinel_file root0), Read (manifest_file root0)]
                   @ [] @ evs2 @ evs3)))
   \<and> fst (fix_all_git_symlinked (nt cwd0) root0 fs_read_only) = Inr 1"
proof -
  have h1: "io_read (nt cwd0) fs_read_only (sentinel_file root0) = Inr ''symlink-test-orig.txt''"
    by code_simp
  have h2: "\<not> startswith ''symlink-test-orig.txt'' ''NIKOLA_SYMLINKS=OK''"
    by code_simp
  have h3: "io_read (nt cwd0) fs_read_only (manifest_file root0)
              = Inr ''docs/a.txt\<newline>docs/b.txt\<newline>''"
    by code_simp
  have h4: "\<not> startswith ''docs/a.txt\<newline>docs/b.txt\<newline>'' ''.''"
    by code_simp
  have h5: "relnames_of ''docs/a.txt\<newline>docs/b.txt\<newline>''
              = [] @ win ''docs/a.txt'' # [win ''docs/b.txt'']"
    by code_simp
  have h6: "for_relnames (nt cwd0) root0 [] 0 fs_read_only = (Inr 0, fs_read_only, [])"
    by simp
  have h7: "is_file_into_dir (nt cwd0) (path_join (nt cwd0) root0 (win ''docs/a.txt'')) root0
              = Inr True"
    by code_simp
  have h8: "path_isdir (nt cwd0) fs_read_only (path_join (nt cwd0) root0 (win ''docs/a.txt''))
              = Inr False"
    by code_simp
  have h9: "io_read (nt cwd0) fs_read_only
              (path_join (nt cwd0) root0 (path_join (nt cwd0) root0 (win ''docs/a.txt'')))
              = Inr ''../real/a.txt''"
    by code_simp
  have fails: "fst (copy_src_to_dst (nt cwd0) (win ''C:/repo/real/a.txt'')
                      (win ''C:/repo/docs/a.txt'') fs_read_only)
               = Some (OSError ''Permission denied'')"
    by code_simp
  have total: "fst (fix_all_git_symlinked (nt cwd0) root0 fs_read_only) = Inr 1"
    by code_simp
  from entry_errors_do_not_abort [OF h1 h2 h3 h4 h5 h6 h7 h8 h9] h3 h5 fails total
  show ?thesis by blast
qed

text \<open>
  Claim C2 as stated fails: the read of line 95 stands before the first \<open>try\<close>. The
  manifest names \<open>docs/a.txt\<close>, which the checkout does not hold; the \<open>OSError\<close> of the
  read leaves the function, and the second entry, \<open>docs/b.txt\<close>, is never looked at.
\<close>

theorem missing_placeholder_aborts_counterexample:
  "io_read (nt cwd0) fs_missing (sentinel_file root0) = Inr ''symlink-test-orig.txt''
   \<and> io_read (nt cwd0) fs_missing (manifest_file root0)
       = Inr ''docs/a.txt\<newline>docs/b.txt\<newline>''
   \<and> relnames_of ''docs/a.txt\<newline>docs/b.txt\<newline>''
       = [win ''docs/a.txt'', win ''docs/b.txt'']
   \<and> io_read (nt cwd0) fs_missing (win ''C:/repo/docs/a.txt'')
       = Inl (OSError ''No such file or directory'')
   \<and> fix_all_git_symlinked (nt cwd0) root0 fs_missing
       = (Inl (OSError ''No such file or directory''), fs_missing,
          [Read (sentinel_file root0), Read (manifest_file root0),
           Probe (win ''C:/repo/docs/a.txt''), Read (win ''C:/repo/docs/a.txt'')])
   \<and> io_read (nt cwd0) fs_missing (win ''C:/repo/docs/b.txt'') = Inr ''../real/b.txt''"
  by code_simp

section \<open>Repairs\<close>

text \<open>
  Claim C6, as amended. In a run that gets past the sentinel and the leading-dot check
  of the manifest, with one entry in the manifest: if \<open>is_file_into_dir\<close> accepts the
  destination, the destination is no directory, the placeholder, joined to the
  directory of the destination and normalised, names a path that exists, that
  \<open>is_file_into_dir\<close> accepts (its path relative to the root does not begin with a
  dot) and that is no directory, and \<open>shutil.copy2\<close> raises nothing, then the function
  returns 0, leaves the filesystem that the copy left, has caused the events listed and
  no other, and reading the destination gives what reading the source gave. The last
  part rests on the contract of \<open>shutil.copy2\<close>, a hypothesis here and proved of the
  model in the witness. Nothing is said of a source or a destination that
  \<open>is_file_into_dir\<close> rejects.
\<close>

theorem placeholder_file_repaired:
  assumes "io_read os fs (sentinel_file topdir) = Inr link"
    and "\<not> startswith link ''NIKOLA_SYMLINKS=OK''"
    and "io_read os fs (manifest_file topdir) = Inr manifest"
    and "\<not> startswith manifest ''.''"
    and names: "relnames_of manifest = [name]"
    and dst: "dst = path_join os topdir name"
    and dst_inside: "is_file_into_dir os dst topdir = Inr True"
    and dst_file: "path_isdir os fs dst = Inr False"
    and placeholder: "io_read os fs (path_join os topdir dst) = Inr target"
    and src: "src = path_normpath os (path_join os (path_dirname os dst) target)"
    and src_exists: "path_exists os fs src = Inr True"
    and src_inside: "is_file_into_dir os src topdir = Inr True"
    and src_file: "path_isdir os fs src = Inr False"
    and copy: "shutil_copy2 os src dst fs = (None, fs')"
    and copy2_contract: "\<And>f f'. path_isdir os f dst = Inr False
           \<Longrightarrow> shutil_copy2 os src dst f = (None, f')
           \<Longrightarrow> io_read os f' dst = io_read os f src"
  shows "fix_all_git_symlinked os topdir fs =
           (Inr 0, fs',
            [Read (sentinel_file topdir), Read (manifest_file topdir),
             Probe dst, Read (path_join os topdir dst), Probe src,
             Probe src, Copy2 src dst])
         \<and> io_read os fs' dst = io_read os fs src"
proof
  have body: "copy_src_to_dst os src dst fs = (None, fs', [Probe src, Copy2 src dst])"
    using src_file copy unfolding copy_src_to_dst_def by simp
  have "process_entry os topdir name 0 fs =
          (Inr 0, fs',
           [Probe dst, Read (path_join os topdir dst), Probe src] @ [Probe src, Copy2 src dst] @ [])"
    using process_entry_valid
      [OF dst_inside [unfolded dst] dst_file [unfolded dst] placeholder [unfolded dst]
          src [unfolded dst] src_exists src_inside body [unfolded dst], of 0]
    by (simp add: dst)
  then show "fix_all_git_symlinked os topdir fs =
           (Inr 0, fs',
            [Read (sentinel_file topdir), Read (manifest_file topdir),
             Probe dst, Read (path_join os topdir dst), Probe src,
             Probe src, Copy2 src dst])"
    using fix_past_checks [OF assms(1-4)] names by simp
next
  show "io_read os fs' dst = io_read os fs src"
    by (rule copy2_contract [OF dst_file copy])
qed

theorem placeholder_file_repaired_witness:
  "relnames_of ''docs/a.txt\<newline>'' = [win ''docs/a.txt'']
   \<and> io_read (nt cwd0) fs_real (win ''C:/repo/docs/a.txt'') = Inr ''../real/a.txt''
   \<and> win ''C:/repo/real/a.txt''
       = path_normpath (nt cwd0)
           (path_join (nt cwd0) (path_dirname (nt cwd0) (win ''C:/repo/docs/a.txt''))
              ''../real/a.txt'')
   \<and> io_read (nt cwd0) fs_real (win ''C:/repo/real/a.txt'') = Inr ''hello''
   \<and> fix_all_git_symlinked (nt cwd0) root0 fs_real =
       (Inr 0, nt_put (nt_key cwd0 (win ''C:/repo/docs/a.txt'')) (File False ''hello'') fs_real,
        [Read (sentinel_file root0), Read (manifest_file root0),
         Probe (win ''C:/repo/docs/a.txt''),
         Read (path_join (nt cwd0) root0 (win ''C:/repo/docs/a.txt'')),
         Probe (win ''C:/repo/real/a.txt''),
         Probe (win ''C:/repo/real/a.txt''),
         Copy2 (win ''C:/repo/real/a.txt'') (win ''C:/repo/docs/a.txt'')])
   \<and> io_read (nt cwd0)
         (nt_put (nt_key cwd0 (win ''C:/repo/docs/a.txt'')) (File False ''hello'') fs_real)
         (win ''C:/repo/docs/a.txt'')
       = Inr ''hello''"
proof -
  let ?dst = "win ''C:/repo/docs/a.txt''"
  let ?src = "win ''C:/repo/real/a.txt''"
  have h1: "io_read (nt cwd0) fs_real (sentinel_file root0) = Inr ''symlink-test-orig.txt''"
    by code_simp
  have h2: "\<not> startswith ''symlink-test-orig.txt'' ''NIKOLA_SYMLINKS=OK''"
    by code_simp
  have h3: "io_read (nt cwd0) fs_real (manifest_file root0) = Inr ''docs/a.txt\<newline>''"
    by code_simp
  have h4: "\<not> startswith ''docs/a.txt\<newline>'' ''.''"
    by code_simp
  have h5: "relnames_of ''docs/a.txt\<newline>'' = [win ''docs/a.txt'']"
    by code_simp
  have h6: "?dst = path_join (nt cwd0) root0 (win ''docs/a.txt'')"
    by code_simp
  have h7: "is_file_into_dir (nt cwd0) ?dst root0 = Inr True"
    by code_simp
  have h8: "path_isdir (nt cwd0) fs_real ?dst = Inr False"
    by code_simp
  have h9: "io_read (nt cwd0) fs_real (path_join (nt cwd0) root0 ?dst) = Inr ''../real/a.txt''"
    by code_simp
  have h10: "?src = path_normpath (nt cwd0)
                      (path_join (nt cwd0) (path_dirname (nt cwd0) ?dst) ''../real/a.txt'')"
    by code_simp
  have h11: "path_exists (nt cwd0) fs_real ?src = Inr True"
    by code_simp
  have h12: "is_file_into_dir (nt cwd0) ?src root0 = Inr True"
    by code_simp
  have h13: "path_isdir (nt cwd0) fs_real ?src = Inr False"
    by code_simp
  have h14: "shutil_copy2 (nt cwd0) ?src ?dst fs_real
             = (None, nt_put (nt_key cwd0 ?dst) (File False ''hello'') fs_real)"
    by code_simp
  have h15: "\<And>f f'. path_isdir (nt cwd0) f ?dst = Inr False
           \<Longrightarrow> shutil_copy2 (nt cwd0) ?src ?dst f = (None, f')
           \<Longrightarrow> io_read (nt cwd0) f' ?dst = io_read (nt cwd0) f ?src"
    using nt_copy2_contract by (simp add: nt_def)
  have placeholder: "io_read (nt cwd0) fs_real ?dst = Inr ''../real/a.txt''"
    by code_simp
  have source: "io_read (nt cwd0) fs_real ?src = Inr ''hello''"
    by code_simp
  from placeholder_file_repaired [OF h1 h2 h3 h4 h5 h6 h7 h8 h9 h10 h11 h12 h13 h14 h15]
    h5 h10 placeholder source
  show ?thesis by simp
qed

text \<open>
  Claim C6 as stated fails, at three checkouts with one entry \<open>docs/a.txt\<close>.
  Its example: \<open>../real/a.txt\<close>, resolved against \<open>docs\<close>, is \<open>real/a.txt\<close> under the
  root, not \<open>docs/real/a.txt\<close>; with \<open>hello\<close> at \<open>docs/real/a.txt\<close> only, the source
  does not exist and the entry is passed over. A read-only placeholder, with the source
  an existing file inside the root: \<open>shutil.copy2\<close> raises, the function returns 1 and
  the placeholder holds what it held. A source \<open>.real/a.txt\<close>, an existing file in the
  root: its relative path begins with a dot, \<open>is_file_into_dir\<close> rejects it and the
  entry is passed over. In all three \<open>docs/a.txt\<close> still holds the path.
\<close>

theorem placeholder_file_not_repaired_counterexample:
  "io_read (nt cwd0) fs_docs_real (win ''C:/repo/docs/a.txt'') = Inr ''../real/a.txt''
   \<and> io_read (nt cwd0) fs_docs_real (win ''C:/repo/docs/real/a.txt'') = Inr ''hello''
   \<and> fix_all_git_symlinked (nt cwd0) root0 fs_docs_real =
       (Inr 0, fs_docs_real,
        [Read (sentinel_file root0), Read (manifest_file root0),
         Probe (win ''C:/repo/docs/a.txt''), Read (win ''C:/repo/docs/a.txt''),
         Probe (win ''C:/repo/real/a.txt'')])
   \<and> io_read (nt cwd0) fs_locked (win ''C:/repo/docs/a.txt'') = Inr ''../real/a.txt''
   \<and> path_isdir (nt cwd0) fs_locked (win ''C:/repo/real/a.txt'') = Inr False
   \<and> io_read (nt cwd0) fs_locked (win ''C:/repo/real/a.txt'') = Inr ''hello''
   \<and> is_file_into_dir (nt cwd0) (win ''C:/repo/real/a.txt'') root0 = Inr True
   \<and> fix_all_git_symlinked (nt cwd0) root0 fs_locked =
       (Inr 1, fs_locked,
        [Read (sentinel_file root0), Read (manifest_file root0),
         Probe (win ''C:/repo/docs/a.txt''), Read (win ''C:/repo/docs/a.txt''),
         Probe (win ''C:/repo/real/a.txt''), Probe (win ''C:/repo/real/a.txt''),
         Copy2 (win ''C:/repo/real/a.txt'') (win ''C:/repo/docs/a.txt'')]
        @ copy_failed (win ''C:/repo/real/a.txt'') (win ''C:/repo/docs/a.txt''))
   \<and> io_read (nt cwd0) fs_dot_real (win ''C:/repo/docs/a.txt'') = Inr ''../.real/a.txt''
   \<and> path_isdir (nt cwd0) fs_dot_real (win ''C:/repo/.real/a.txt'') = Inr False
   \<and> io_read (nt cwd0) fs_dot_real (win ''C:/repo/.real/a.txt'') = Inr ''hello''
   \<and> path_relpath (nt cwd0) (win ''C:/repo/.real/a.txt'') root0 = Inr (win ''.real/a.txt'')
   \<and> fix_all_git_symlinked (nt cwd0) root0 fs_dot_real =
       (Inr 0, fs_dot_real,
        [Read (sentinel_file root0), Read (manifest_file root0),
         Probe (win ''C:/repo/docs/a.txt''), Read (win ''C:/repo/docs/a.txt''),
         Probe (win ''C:/repo/.real/a.txt'')])"
  by code_simp



text \<open>
  Claim C8, as amended. Take any entry of the manifest, reached after the entries before
  it in the filesystem \<open>fs1\<close>. If \<open>is_file_into_dir\<close> accepts the destination, the
  destination is no directory, the placeholder names an existing directory that
  \<open>is_file_into_dir\<close> accepts, \<open>os.unlink\<close> removes the placeholder and leaves \<open>fs2\<close>,
  and \<open>shutil.copytree\<close> raises nothing and leaves \<open>fs3\<close>, then the entry leaves the
  counter as it was and the filesystem \<open>fs3\<close>, in which the destination is a directory
  that holds the tree the source held in \<open>fs2\<close>, when the copy began; and the run is the
  run of the entries after it from \<open>fs3\<close>, so that \<open>fs3\<close> is what the function leaves
  when the entry is the last. That the destination is a directory with that tree rests
  on the contract of \<open>shutil.copytree\<close>, for any observation \<open>tree_at\<close> of a tree that
  the library preserves; both are proved of the model in the witness. Nothing is said
  of a source or a destination that \<open>is_file_into_dir\<close> rejects.
\<close>

theorem placeholder_directory_repaired:
  assumes "io_read os fs (sentinel_file topdir) = Inr link"
    and "\<not> startswith link ''NIKOLA_SYMLINKS=OK''"
    and "io_read os fs (manifest_file topdir) = Inr manifest"
    and "\<not> startswith manifest ''.''"
    and names: "relnames_of manifest = before @ name # after"
    and before: "for_relnames os topdir before 0 fs = (Inr k, fs1, evs1)"
    and dst: "dst = path_join os topdir name"
    and dst_inside: "is_file_into_dir os dst topdir = Inr True"
    and dst_file: "path_isdir os fs1 dst = Inr False"
    and placeholder: "io_read os fs1 (path_join os topdir dst) = Inr target"
    and src: "src = path_normpath os (path_join os (path_dirname os dst) target)"
    and src_exists: "path_exists os fs1 src = Inr True"
    and src_inside: "is_file_into_dir os src topdir = Inr True"
    and src_dir: "path_isdir os fs1 src = Inr True"
    and unlink: "os_unlink os dst fs1 = (None, fs2)"
    and copytree: "shutil_copytree os src dst fs2 = (None, fs3)"
    and copytree_makes_dir: "\<And>f f'. shutil_copytree os src dst f = (None, f')
           \<Longrightarrow> path_isdir os f' dst = Inr True"
    and copytree_copies: "\<And>f f'. shutil_copytree os src dst f = (None, f')
           \<Longrightarrow> tree_at f' dst = tree_at f src"
  shows "process_entry os topdir name k fs1 =
           (Inr k, fs3,
            [Probe dst, Read (path_join os topdir dst), Probe src,
             Probe src, Unlink dst, Copytree src dst])
         \<and> path_isdir os fs3 dst = Inr True
         \<and> tree_at fs3 dst = tree_at fs2 src
         \<and> fix_all_git_symlinked os topdir fs =
             (case for_relnames os topdir after k fs3 of
                (r, fs4, evs4) \<Rightarrow>
                  (r, fs4,
                   [Read (sentinel_file topdir), Read (manifest_file topdir)] @ evs1
                   @ [Probe dst, Read (path_join os topdir dst), Probe src,
                      Probe src, Unlink dst, Copytree src dst]
                   @ evs4))"
proof (intro conjI)
  have body: "copy_src_to_dst os src dst fs1 =
                (None, fs3, [Probe src, Unlink dst, Copytree src dst])"
    using src_dir unlink copytree unfolding copy_src_to_dst_def by simp
  show step: "process_entry os topdir name k fs1 =
          (Inr k, fs3,
           [Probe dst, Read (path_join os topdir dst), Probe src,
            Probe src, Unlink dst, Copytree src dst])"
    using process_entry_valid
      [OF dst_inside [unfolded dst] dst_file [unfolded dst] placeholder [unfolded dst]
          src [unfolded dst] src_exists src_inside body [unfolded dst], of k]
    by (simp add: dst)
  have "fix_all_git_symlinked os topdir fs =
          (case for_relnames os topdir (before @ name # after) 0 fs of
             (r, fs4, evs) \<Rightarrow>
               (r, fs4, [Read (sentinel_file topdir), Read (manifest_file topdir)] @ evs))"
    using fix_past_checks [OF assms(1-4)] names by simp
  also have "\<dots> =
          (case for_relnames os topdir after k fs3 of
             (r, fs4, evs4) \<Rightarrow>
               (r, fs4,
                [Read (sentinel_file topdir), Read (manifest_file topdir)] @ evs1
                @ [Probe dst, Read (path_join os topdir dst), Probe src,
                   Probe src, Unlink dst, Copytree src dst]
                @ evs4))"
    by (simp add: for_relnames_append before step split: prod.splits)
  finally show "fix_all_git_symlinked os topdir fs =
          (case for_relnames os topdir after k fs3 of
             (r, fs4, evs4) \<Rightarrow>
               (r, fs4,
                [Read (sentinel_file topdir), Read (manifest_file topdir)] @ evs1
                @ [Probe dst, Read (path_join os topdir dst), Probe src,
                   Probe src, Unlink dst, Copytree src dst]
                @ evs4))" .
next
  show "path_isdir os fs3 dst = Inr True"
    by (rule copytree_makes_dir [OF copytree])
next
  show "tree_at fs3 dst = tree_at fs2 src"
    by (rule copytree_copies [OF copytree])
qed

theorem placeholder_directory_repaired_witness:
  "relnames_of ''docs/theme\<newline>'' = [] @ win ''docs/theme'' # []
   \<and> io_read (nt cwd0) fs_theme (win ''C:/repo/docs/theme'') = Inr ''../real/theme''
   \<and> path_isdir (nt cwd0) fs_theme (win ''C:/repo/real/theme'') = Inr True
   \<and> fst (fix_all_git_symlinked (nt cwd0) root0 fs_theme) = Inr 0
   \<and> path_isdir (nt cwd0)
         (fst (snd (fix_all_git_symlinked (nt cwd0) root0 fs_theme)))
         (win ''C:/repo/docs/theme'') = Inr True
   \<and> nt_tree cwd0 (fst (snd (fix_all_git_symlinked (nt cwd0) root0 fs_theme)))
         (win ''C:/repo/docs/theme'')
       = [(''base.css'', File False ''body {}''),
          (''img'', Dir),
          (win ''img/logo.svg'', File False ''<svg/>'')]
   \<and> nt_tree cwd0 (fst (snd (fix_all_git_symlinked (nt cwd0) root0 fs_theme)))
         (win ''C:/repo/real/theme'')
       = [(''base.css'', File False ''body {}''),
          (''img'', Dir),
          (win ''img/logo.svg'', File False ''<svg/>'')]"
proof -
  let ?dst = "win ''C:/repo/docs/theme''"
  let ?src = "win ''C:/repo/real/theme''"
  have h1: "io_read (nt cwd0) fs_theme (sentinel_file root0) = Inr ''symlink-test-orig.txt''"
    by code_simp
  have h2: "\<not> startswith ''symlink-test-orig.txt'' ''NIKOLA_SYMLINKS=OK''"
    by code_simp
  have h3: "io_read (nt cwd0) fs_theme (manifest_file root0) = Inr ''docs/theme\<newline>''"
    by code_simp
  have h4: "\<not> startswith ''docs/theme\<newline>'' ''.''"
    by code_simp
  have h5: "relnames_of ''docs/theme\<newline>'' = [] @ win ''docs/theme'' # []"
    by code_simp
  have h5': "for_relnames (nt cwd0) root0 [] 0 fs_theme = (Inr 0, fs_theme, [])"
    by simp
  have h6: "?dst = path_join (nt cwd0) root0 (win ''docs/theme'')"
    by code_simp
  have h7: "is_file_into_dir (nt cwd0) ?dst root0 = Inr True"
    by code_simp
  have h8: "path_isdir (nt cwd0) fs_theme ?dst = Inr False"
    by code_simp
  have h9: "io_read (nt cwd0) fs_theme (path_join (nt cwd0) root0 ?dst) = Inr ''../real/theme''"
    by code_simp
  have h10: "?src = path_normpath (nt cwd0)
                      (path_join (nt cwd0) (path_dirname (nt cwd0) ?dst) ''../real/theme'')"
    by code_simp
  have h11: "path_exists (nt cwd0) fs_theme ?src = Inr True"
    by code_simp
  have h12: "is_file_into_dir (nt cwd0) ?src root0 = Inr True"
    by code_simp
  have h13: "path_isdir (nt cwd0) fs_theme ?src = Inr True"
    by code_simp
  have h14: "os_unlink (nt cwd0) ?dst fs_theme
             = (None, snd (nt_unlink cwd0 ?dst fs_theme))"
    by code_simp
  have h15: "shutil_copytree (nt cwd0) ?src ?dst (snd (nt_unlink cwd0 ?dst fs_theme))
             = (None, snd (nt_copytree cwd0 ?src ?dst (snd (nt_unlink cwd0 ?dst fs_theme))))"
    by code_simp
  have h16: "\<And>f f'. shutil_copytree (nt cwd0) ?src ?dst f = (None, f')
           \<Longrightarrow> path_isdir (nt cwd0) f' ?dst = Inr True"
    using nt_copytree_isdir by (simp add: nt_def)
  have h17: "\<And>f f'. shutil_copytree (nt cwd0) ?src ?dst f = (None, f')
           \<Longrightarrow> nt_tree cwd0 f' ?dst = nt_tree cwd0 f ?src"
    using nt_copytree_tree by (simp add: nt_def)
  have placeholder: "io_read (nt cwd0) fs_theme ?dst = Inr ''../real/theme''"
    by code_simp
  have listing: "nt_tree cwd0 (snd (nt_unlink cwd0 ?dst fs_theme)) ?src
       = [(''base.css'', File False ''body {}''),
          (''img'', Dir),
          (win ''img/logo.svg'', File False ''<svg/>'')]"
    by code_simp
  have after: "nt_tree cwd0 (fst (snd (fix_all_git_symlinked (nt cwd0) root0 fs_theme))) ?src
       = [(''base.css'', File False ''body {}''),
          (''img'', Dir),
          (win ''img/logo.svg'', File False ''<svg/>'')]"
    by code_simp
  from placeholder_directory_repaired
    [where tree_at = "nt_tree cwd0",
     OF h1 h2 h3 h4 h5 h5' h6 h7 h8 h9 h10 h11 h12 h13 h14 h15 h16 h17]
    h5 placeholder h13 listing after
  show ?thesis by simp
qed

text \<open>
  Claim C8 as stated fails, at four checkouts whose entry \<open>docs/theme\<close> (or
  \<open>docs/link\<close>) names an existing directory in the root. A read-only placeholder:
  \<open>os.unlink\<close> raises, the function returns 1 and the destination is the file it was.
  A source \<open>.themes/base\<close>: its relative path begins with a dot, \<open>is_file_into_dir\<close>
  rejects it and the entry is passed over. A placeholder \<open>.\<close>, which names \<open>docs\<close>: the
  copy succeeds, and after the run \<open>docs\<close> holds the new directory too, which its copy
  does not. A second entry \<open>docs/theme/note.txt\<close>: the run repairs the copied file, and
  the destination no longer holds what the source holds.
\<close>

theorem placeholder_directory_not_repaired_counterexample:
  "io_read (nt cwd0) fs_theme_locked (win ''C:/repo/docs/theme'') = Inr ''../real/theme''
   \<and> path_isdir (nt cwd0) fs_theme_locked (win ''C:/repo/real/theme'') = Inr True
   \<and> is_file_into_dir (nt cwd0) (win ''C:/repo/real/theme'') root0 = Inr True
   \<and> fix_all_git_symlinked (nt cwd0) root0 fs_theme_locked =
       (Inr 1, fs_theme_locked,
        [Read (sentinel_file root0), Read (manifest_file root0),
         Probe (win ''C:/repo/docs/theme''), Read (win ''C:/repo/docs/theme''),
         Probe (win ''C:/repo/real/theme''), Probe (win ''C:/repo/real/theme''),
         Unlink (win ''C:/repo/docs/theme'')]
        @ copy_failed (win ''C:/repo/real/theme'') (win ''C:/repo/docs/theme''))
   \<and> io_read (nt cwd0) fs_dot_themes (win ''C:/repo/docs/theme'') = Inr ''../.themes/base''
   \<and> path_isdir (nt cwd0) fs_dot_themes (win ''C:/repo/.themes/base'') = Inr True
   \<and> path_relpath (nt cwd0) (win ''C:/repo/.themes/base'') root0 = Inr (win ''.themes/base'')
   \<and> fix_all_git_symlinked (nt cwd0) root0 fs_dot_themes =
       (Inr 0, fs_dot_themes,
        [Read (sentinel_file root0), Read (manifest_file root0),
         Probe (win ''C:/repo/docs/theme''), Read (win ''C:/repo/docs/theme''),
         Probe (win ''C:/repo/.themes/base'')])
   \<and> io_read (nt cwd0) fs_self (win ''C:/repo/docs/link'') = Inr ''.''
   \<and> (case fix_all_git_symlinked (nt cwd0) root0 fs_self of
         (r, f, evs) \<Rightarrow>
           r = Inr 0
           \<and> nt_tree cwd0 f (win ''C:/repo/docs/link'') = [(''a.txt'', File False ''hello'')]
           \<and> nt_tree cwd0 f (win ''C:/repo/docs'')
               = [(''link'', Dir),
                  (win ''link/a.txt'', File False ''hello''),
                  (''a.txt'', File False ''hello'')])
   \<and> relnames_of ''docs/theme\<newline>docs/theme/note.txt\<newline>''
       = [win ''docs/theme'', win ''docs/theme/note.txt'']
   \<and> io_read (nt cwd0) fs_theme_note (win ''C:/repo/docs/theme'') = Inr ''../real/theme''
   \<and> (case fix_all_git_symlinked (nt cwd0) root0 fs_theme_note of
         (r, f, evs) \<Rightarrow>
           r = Inr 0
           \<and> nt_tree cwd0 f (win ''C:/repo/docs/theme'') = [(''note.txt'', File False ''other'')]
           \<and> nt_tree cwd0 f (win ''C:/repo/real/theme'')
               = [(''note.txt'', File False ''../other.txt'')])"
  by code_simp

end
